theory Spec2Isabelle
  imports Main
begin

section \<open>Errors\<close>

text \<open>
  A Go \<open>error\<close> is a value.  Three shapes occur in \<open>pkg/reconciler\<close>: the API status
  errors that the Kubernetes clients return (they carry a reason, which
  \<open>errors.IsNotFound\<close> and \<open>errors.IsAlreadyExists\<close> read), the plain errors made by
  \<open>fmt.Errorf\<close> without \<open>%w\<close>, and the errors made by \<open>fmt.Errorf\<close> with \<open>%w\<close>, which
  keep the wrapped error.  A nil pointer dereference is a run-time panic; it is kept
  apart from every error the code can return as the value \<open>RuntimePanic\<close>.
\<close>

datatype StatusReason =
    StatusReasonNotFound
  | StatusReasonAlreadyExists
  | StatusReasonForbidden
  | StatusReasonUnknown

datatype error =
    StatusError StatusReason string
  | ErrorString string
  | WrapError string error
  | RuntimePanic

text \<open>\<open>err.Error()\<close>: the message.\<close>

fun Error :: "error \<Rightarrow> string" where
  "Error (StatusError reason msg) = msg"
| "Error (ErrorString msg) = msg"
| "Error (WrapError msg err) = msg"
| "Error RuntimePanic = ''invalid memory address or nil pointer dereference''"

text \<open>
  \<open>fmt.Errorf(prefix + "%w", err)\<close>: the message is the prefix followed by the message
  of the wrapped error.
\<close>

definition Errorf_w :: "string \<Rightarrow> error \<Rightarrow> error" where
  "Errorf_w prefix err = WrapError (prefix @ Error err) err"

text \<open>\<open>errors.ReasonForError\<close> looks through wrapped errors.\<close>

fun ReasonForError :: "error \<Rightarrow> StatusReason" where
  "ReasonForError (StatusError reason msg) = reason"
| "ReasonForError (ErrorString msg) = StatusReasonUnknown"
| "ReasonForError (WrapError msg err) = ReasonForError err"
| "ReasonForError RuntimePanic = StatusReasonUnknown"

definition IsNotFound :: "error \<Rightarrow> bool" where
  "IsNotFound err = (ReasonForError err = StatusReasonNotFound)"

definition IsAlreadyExists :: "error \<Rightarrow> bool" where
  "IsAlreadyExists err = (ReasonForError err = StatusReasonAlreadyExists)"

section \<open>Kubernetes objects\<close>

type_synonym bytes = string

text \<open>
  \<open>metav1.OwnerReference\<close>.  \<open>Controller\<close> and \<open>BlockOwnerDeletion\<close> are \<open>*bool\<close>:
  \<open>None\<close> is the nil pointer.
\<close>

record OwnerReference =
  APIVersion :: string
  Kind :: string
  OwnerName :: string
  OwnerUID :: string
  Controller :: "bool option"
  BlockOwnerDeletion :: "bool option"

text \<open>The fields of \<open>metav1.ObjectMeta\<close> that the reconciler reads or writes.\<close>

record ObjectMeta =
  Name :: string
  Namespace :: string
  UID :: string
  Labels :: "string \<rightharpoonup> string"
  Annotations :: "string \<rightharpoonup> string"
  OwnerReferences :: "OwnerReference list"

record Secret = ObjectMeta +
  Type :: string
  Data :: "string \<rightharpoonup> bytes"

text \<open>
  \<open>v1.PipelineRun\<close>.  \<open>IsDone\<close> is the value of the Tekton method \<open>IsDone()\<close> on the
  object's status.
\<close>

record PipelineRun = ObjectMeta +
  IsDone :: bool

text \<open>
  \<open>kueue.Workload\<close>: \<open>Active\<close> is \<open>Spec.Active\<close> (a \<open>*bool\<close>), \<open>ClusterName\<close> is
  \<open>Status.ClusterName\<close> (a \<open>*string\<close>).
\<close>

record Workload = ObjectMeta +
  Active :: "bool option"
  ClusterName :: "string option"

record KubeConfig =
  Location :: string
  LocationType :: string

record MultiKueueCluster = ObjectMeta +
  Spec_KubeConfig :: KubeConfig

datatype rest_Config = Config (Host: string)

section \<open>Clients and the clusters behind them\<close>

text \<open>
  The reconciler holds three read-only collaborators on the hub: the Workload lister,
  the Kueue client and the hub Kubernetes client.  Each \<open>Get\<close> is a function from the
  object's identity to the object or to the error of the call, so that every failure a
  call can return is an input of the model.
\<close>

record Reconciler =
  workloadLister :: "string \<times> string \<Rightarrow> error + Workload"
  kueueClient :: "string \<Rightarrow> error + MultiKueueCluster"
  hubKubeClient :: "string \<times> string \<Rightarrow> error + Secret"
  kueueNamespace :: string

text \<open>
  The functions of \<open>client-go\<close> that turn credentials into a connection:
  \<open>clientcmd.RESTConfigFromKubeConfig\<close>, \<open>clientcmd.BuildConfigFromFlags\<close> (with its
  first argument, the master URL, as given) and the two \<open>NewForConfig\<close> constructors,
  which return an error or a client for the cluster of the configuration.
\<close>

record Env =
  RESTConfigFromKubeConfig :: "bytes \<Rightarrow> error + rest_Config"
  BuildConfigFromFlags :: "string \<Rightarrow> string \<Rightarrow> error + rest_Config"
  kubernetes_NewForConfig :: "rest_Config \<Rightarrow> error option"
  tekton_NewForConfig :: "rest_Config \<Rightarrow> error option"

text \<open>
  A spoke cluster, as its API server answers: the PipelineRuns it returns, the secrets
  it stores, and the failures it answers a create with (the reactor of a fake
  clientset; a real server's admission or authorisation failure).
\<close>

record Spoke =
  pipelineRuns :: "string \<times> string \<Rightarrow> error + PipelineRun"
  secrets :: "string \<times> string \<rightharpoonup> Secret"
  createReactor :: "string \<times> string \<rightharpoonup> error"

text \<open>The calls that leave the process, in the order they are made.\<close>

datatype Call =
    ListerGetWorkload string string
  | GetMultiKueueCluster string
  | HubGetSecret string string
  | LoadKubeconfigFile string
  | SpokeGetPipelineRun rest_Config string string
  | SpokeCreateSecret rest_Config string Secret

record World =
  spokes :: "rest_Config \<Rightarrow> Spoke"
  calls :: "Call list"

definition called :: "Call \<Rightarrow> World \<Rightarrow> World" where
  "called c w = w\<lparr>calls := calls w @ [c]\<rparr>"

section \<open>reconciler.go\<close>

definition groupName :: string where
  "groupName = ''pipelinesascode.tekton.dev''"

definition gitAuthSecret :: string where
  "gitAuthSecret = groupName @ ''/git-auth-secret''"

subsection \<open>getSpokeClusterConfig\<close>

definition getSpokeClusterConfig ::
  "Env \<Rightarrow> Reconciler \<Rightarrow> World \<Rightarrow> string \<Rightarrow> (error + rest_Config) \<times> World" where
  "getSpokeClusterConfig env r w clusterName =
    (let w1 = called (GetMultiKueueCluster clusterName) w in
     case kueueClient r clusterName of
       Inl err \<Rightarrow>
         (Inl (Errorf_w (''could not find MultiKueueCluster '' @ clusterName @ '': '') err), w1)
     | Inr mkCluster \<Rightarrow>
         (let kubeConfig = Spec_KubeConfig mkCluster in
          if LocationType kubeConfig = ''Secret'' then
            (let w2 = called (HubGetSecret (kueueNamespace r) (Location kubeConfig)) w1 in
             case hubKubeClient r (kueueNamespace r, Location kubeConfig) of
               Inl err \<Rightarrow>
                 (Inl (Errorf_w (''could not get kubeconfig secret '' @ kueueNamespace r
                         @ ''/'' @ Location kubeConfig @ '': '') err), w2)
             | Inr kubeconfigSecret \<Rightarrow>
                 (case Data kubeconfigSecret ''kubeconfig'' of
                    None \<Rightarrow>
                      (Inl (ErrorString (''kubeconfig secret '' @ kueueNamespace r @ ''/''
                              @ Location kubeConfig
                              @ '' is missing 'kubeconfig' data key'')), w2)
                  | Some kubeconfigBytes \<Rightarrow>
                      (RESTConfigFromKubeConfig env kubeconfigBytes, w2)))
          else if LocationType kubeConfig = ''Path'' then
            (BuildConfigFromFlags env [] (Location kubeConfig),
             called (LoadKubeconfigFile (Location kubeConfig)) w1)
          else
            (Inl (ErrorString (''unsupported kubeconfig location type: ''
                    @ LocationType kubeConfig)), w1)))"

subsection \<open>validatePLRAndGetSecretName\<close>

text \<open>
  The three results of the Go function are a triple: the secret name, the PipelineRun
  pointer (\<open>None\<close> is nil) and the error (\<open>None\<close> is nil).  The client is the Tekton
  client of the spoke cluster, named by the configuration it was made from.
\<close>

definition validatePLRAndGetSecretName ::
  "World \<Rightarrow> rest_Config \<Rightarrow> string \<Rightarrow> string \<Rightarrow> string
     \<Rightarrow> (string \<times> PipelineRun option \<times> error option) \<times> World" where
  "validatePLRAndGetSecretName w spokeTektonClient plrName plrNamespace clusterName =
    (let w1 = called (SpokeGetPipelineRun spokeTektonClient plrNamespace plrName) w in
     case pipelineRuns (spokes w spokeTektonClient) (plrNamespace, plrName) of
       Inl err \<Rightarrow>
         if IsNotFound err then (([], None, None), w1)
         else (([], None, Some err), w1)
     | Inr pipelineRun \<Rightarrow>
         if IsDone pipelineRun then (([], None, None), w1)
         else
           (case Annotations pipelineRun gitAuthSecret of
              None \<Rightarrow> (([], None, None), w1)
            | Some secretName \<Rightarrow> ((secretName, Some pipelineRun, None), w1)))"

subsection \<open>createSecretOnSpokeCluster\<close>

text \<open>
  \<open>Secrets(namespace).Create\<close> on a spoke cluster: an injected failure is answered
  first; an object of the same namespace and name makes the call fail with
  already-exists; otherwise the object is stored as it was sent.
\<close>

definition Create :: "World \<Rightarrow> rest_Config \<Rightarrow> string \<Rightarrow> Secret \<Rightarrow> error option \<times> World" where
  "Create w client ns obj =
    (let w1 = called (SpokeCreateSecret client ns obj) w;
         sp = spokes w1 client
     in case createReactor sp (ns, Name obj) of
          Some err \<Rightarrow> (Some err, w1)
        | None \<Rightarrow>
            (case secrets sp (ns, Name obj) of
               Some existing \<Rightarrow>
                 (Some (StatusError StatusReasonAlreadyExists
                          (''secrets '' @ [CHR 0x22] @ Name obj @ [CHR 0x22]
                             @ '' already exists'')), w1)
             | None \<Rightarrow>
                 (None, w1\<lparr>spokes := (spokes w1)
                              (client := sp\<lparr>secrets := (secrets sp)((ns, Name obj) \<mapsto> obj)\<rparr>)\<rparr>)))"

text \<open>
  The object built in lines 188 to 207: the composite literal, then the loop over the
  owner references of the source secret.
\<close>

definition newSecret :: "Secret \<Rightarrow> PipelineRun \<Rightarrow> Secret" where
  "newSecret secret pipelineRun =
    (let new = \<lparr>Name = Name secret, Namespace = Namespace secret, UID = [],
                Labels = Labels secret, Annotations = Annotations secret,
                OwnerReferences = [],
                Type = Type secret, Data = Data secret\<rparr>
     in if length (OwnerReferences secret) > 0
        then new\<lparr>OwnerReferences :=
                   map (\<lambda>ref. ref\<lparr>OwnerUID := UID pipelineRun\<rparr>) (OwnerReferences secret)\<rparr>
        else new)"

definition createSecretOnSpokeCluster ::
  "Reconciler \<Rightarrow> World \<Rightarrow> string \<Rightarrow> string \<Rightarrow> rest_Config \<Rightarrow> PipelineRun
     \<Rightarrow> error option \<times> World" where
  "createSecretOnSpokeCluster r w secretName clusterName spokeKubeClient pipelineRun =
    (let w1 = called (HubGetSecret (Namespace pipelineRun) secretName) w in
     case hubKubeClient r (Namespace pipelineRun, secretName) of
       Inl err \<Rightarrow> (Some err, w1)
     | Inr secret \<Rightarrow>
         (let new = newSecret secret pipelineRun in
          case Create w1 spokeKubeClient (Namespace new) new of
            (Some err, w2) \<Rightarrow> if \<not> IsAlreadyExists err then (Some err, w2) else (None, w2)
          | (None, w2) \<Rightarrow> (None, w2)))"

subsection \<open>Reconcile\<close>

text \<open>\<open>strings.Split(key, "/")\<close>.\<close>

fun splitSlash :: "string \<Rightarrow> string list" where
  "splitSlash [] = [[]]"
| "splitSlash (c # cs) =
     (if c = CHR ''/'' then [] # splitSlash cs
      else (case splitSlash cs of
              [] \<Rightarrow> [[c]]
            | p # ps \<Rightarrow> (c # p) # ps))"

text \<open>
  \<open>cache.SplitMetaNamespaceKey\<close>: one part is a name without namespace, two parts are
  namespace and name, anything else is an error.
\<close>

definition SplitMetaNamespaceKey :: "string \<Rightarrow> error + (string \<times> string)" where
  "SplitMetaNamespaceKey key =
    (case splitSlash key of
       [name] \<Rightarrow> Inr ([], name)
     | [namespace, name] \<Rightarrow> Inr (namespace, name)
     | _ \<Rightarrow> Inl (ErrorString (''unexpected key format: '' @ [CHR 0x22] @ key @ [CHR 0x22])))"

text \<open>
  \<open>metav1.GetControllerOf\<close>: the first owner reference whose \<open>Controller\<close> pointer is
  set and true.
\<close>

definition GetControllerOf :: "'a ObjectMeta_scheme \<Rightarrow> OwnerReference option" where
  "GetControllerOf controllee =
     find (\<lambda>ref. Controller ref \<noteq> None \<and> the (Controller ref)) (OwnerReferences controllee)"

text \<open>
  \<open>Reconcile\<close> returns the error (\<open>None\<close> is nil) and the world after its calls.  The
  two dereferences of \<open>workload.Status.ClusterName\<close> after the gate read the string the
  gate has found.  The PipelineRun pointer that \<open>createSecretOnSpokeCluster\<close>
  dereferences is the one the validator returned.
\<close>

definition Reconcile :: "Env \<Rightarrow> Reconciler \<Rightarrow> World \<Rightarrow> string \<Rightarrow> error option \<times> World" where
  "Reconcile env r w key =
    (case SplitMetaNamespaceKey key of
       Inl err \<Rightarrow> (None, w)
     | Inr (namespace, name) \<Rightarrow>
        (let w1 = called (ListerGetWorkload namespace name) w in
         case workloadLister r (namespace, name) of
           Inl err \<Rightarrow> if IsNotFound err then (None, w1) else (Some err, w1)
         | Inr workload \<Rightarrow>
            if Active workload \<noteq> None \<and> \<not> the (Active workload) then (None, w1)
            else
             (case ClusterName workload of
                None \<Rightarrow> (None, w1)
              | Some clusterName \<Rightarrow>
                 if clusterName = [] then (None, w1)
                 else
                  (case GetControllerOf workload of
                     None \<Rightarrow> (None, w1)
                   | Some ownerPipelineRunReference \<Rightarrow>
                      if Kind ownerPipelineRunReference \<noteq> ''PipelineRun'' then (None, w1)
                      else
                       (case getSpokeClusterConfig env r w1 clusterName of
                          (Inl err, w2) \<Rightarrow> (Some err, w2)
                        | (Inr spokeClusterConfig, w2) \<Rightarrow>
                           (case kubernetes_NewForConfig env spokeClusterConfig of
                              Some err \<Rightarrow> (Some err, w2)
                            | None \<Rightarrow>
                               (case tekton_NewForConfig env spokeClusterConfig of
                                  Some err \<Rightarrow> (Some err, w2)
                                | None \<Rightarrow>
                                   (case validatePLRAndGetSecretName w2 spokeClusterConfig
                                           (OwnerName ownerPipelineRunReference)
                                           (Namespace workload) clusterName of
                                      ((secretName, pipelineRun, Some err), w3) \<Rightarrow> (Some err, w3)
                                    | ((secretName, pipelineRun, None), w3) \<Rightarrow>
                                       if secretName = [] then (None, w3)
                                       else
                                        (case pipelineRun of
                                           None \<Rightarrow> (Some RuntimePanic, w3)
                                         | Some plr \<Rightarrow>
                                            createSecretOnSpokeCluster r w3 secretName
                                              clusterName spokeClusterConfig plr)))))))))"

section \<open>controller.go\<close>

text \<open>
  What an informer hands to an event handler: an object with metadata, a tombstone
  (\<open>cache.DeletedFinalStateUnknown\<close>) around something, or anything else.
\<close>

datatype any = Accessor Workload | DeletedFinalStateUnknown any | NoAccessor

text \<open>\<open>kmeta.DeletionHandlingAccessor\<close>.\<close>

fun DeletionHandlingAccessor :: "any \<Rightarrow> error + Workload" where
  "DeletionHandlingAccessor (Accessor object) = Inr object"
| "DeletionHandlingAccessor (DeletedFinalStateUnknown (Accessor object)) = Inr object"
| "DeletionHandlingAccessor (DeletedFinalStateUnknown obj) =
     Inl (ErrorString ''the object that Tombstone contained is not of kmeta.Accessor'')"
| "DeletionHandlingAccessor NoAccessor =
     Inl (ErrorString ''couldn't get Accessor from tombstone'')"

text \<open>The work queue of the controller, as the keys added to it, oldest first.\<close>

type_synonym Impl = "(string \<times> string) list"

definition EnqueueKey :: "Impl \<Rightarrow> string \<times> string \<Rightarrow> Impl" where
  "EnqueueKey impl key = impl @ [key]"

text \<open>The loop over the owner references, which returns at the first PipelineRun.\<close>

fun enqueueIfOwned :: "Impl \<Rightarrow> Workload \<Rightarrow> OwnerReference list \<Rightarrow> Impl" where
  "enqueueIfOwned impl object [] = impl"
| "enqueueIfOwned impl object (owner # owners) =
     (if Kind owner = ''PipelineRun''
      then EnqueueKey impl (Namespace object, Name object)
      else enqueueIfOwned impl object owners)"

definition checkOwnerAndEnqueue :: "Impl \<Rightarrow> any \<Rightarrow> Impl" where
  "checkOwnerAndEnqueue impl obj =
    (case DeletionHandlingAccessor obj of
       Inl err \<Rightarrow> impl
     | Inr object \<Rightarrow> enqueueIfOwned impl object (OwnerReferences object))"

section \<open>A hub, a spoke and their objects\<close>

text \<open>
  The objects of the end-to-end scenario: Workload \<open>ns/wl-1\<close>, active and scheduled
  to \<open>cluster-a\<close>, controlled by PipelineRun \<open>plr-1\<close>; the registration of
  \<open>cluster-a\<close> with its credential secret \<open>kueue-system/kubeconfig-a\<close>; the
  PipelineRun \<open>ns/plr-1\<close> on the spoke, which names the secret \<open>git-creds\<close>; and
  the hub secret \<open>ns/git-creds\<close>.
\<close>

definition notFound :: "string \<Rightarrow> error" where
  "notFound name = StatusError StatusReasonNotFound (name @ '' not found'')"

definition forbidden :: "string \<Rightarrow> error" where
  "forbidden name = StatusError StatusReasonForbidden (name @ '' is forbidden'')"

definition scenario_owner :: OwnerReference where
  "scenario_owner =
     \<lparr>APIVersion = ''tekton.dev/v1'', Kind = ''PipelineRun'', OwnerName = ''plr-1'',
      OwnerUID = ''uid-of-plr-1-on-the-hub'', Controller = Some True,
      BlockOwnerDeletion = Some True\<rparr>"

definition scenario_workload :: Workload where
  "scenario_workload =
     \<lparr>Name = ''wl-1'', Namespace = ''ns'', UID = ''uid-of-wl-1'', Labels = Map.empty,
      Annotations = Map.empty, OwnerReferences = [scenario_owner],
      Active = Some True, ClusterName = Some ''cluster-a''\<rparr>"

definition scenario_cluster :: MultiKueueCluster where
  "scenario_cluster =
     \<lparr>Name = ''cluster-a'', Namespace = [], UID = ''uid-of-cluster-a'', Labels = Map.empty,
      Annotations = Map.empty, OwnerReferences = [],
      Spec_KubeConfig = \<lparr>Location = ''kubeconfig-a'', LocationType = ''Secret''\<rparr>\<rparr>"

definition scenario_kubeconfig :: bytes where
  "scenario_kubeconfig = ''server: https://cluster-a.example.com:6443''"

definition scenario_credential :: Secret where
  "scenario_credential =
     \<lparr>Name = ''kubeconfig-a'', Namespace = ''kueue-system'', UID = ''uid-of-kubeconfig-a'',
      Labels = Map.empty, Annotations = Map.empty, OwnerReferences = [],
      Type = ''Opaque'', Data = [''kubeconfig'' \<mapsto> scenario_kubeconfig]\<rparr>"

definition scenario_source :: Secret where
  "scenario_source =
     \<lparr>Name = ''git-creds'', Namespace = ''ns'', UID = ''uid-of-git-creds'',
      Labels = [''app'' \<mapsto> ''pipelines-as-code''], Annotations = Map.empty,
      OwnerReferences = [scenario_owner],
      Type = ''Opaque'', Data = [''token'' \<mapsto> ''abc'']\<rparr>"

definition scenario_reconciler :: Reconciler where
  "scenario_reconciler =
     \<lparr>workloadLister =
        (\<lambda>key. if key = (''ns'', ''wl-1'') then Inr scenario_workload
                else Inl (notFound (snd key))),
      kueueClient =
        (\<lambda>name. if name = ''cluster-a'' then Inr scenario_cluster else Inl (notFound name)),
      hubKubeClient =
        (\<lambda>key. if key = (''kueue-system'', ''kubeconfig-a'') then Inr scenario_credential
                else if key = (''ns'', ''git-creds'') then Inr scenario_source
                else Inl (notFound (snd key))),
      kueueNamespace = ''kueue-system''\<rparr>"

definition scenario_config :: rest_Config where
  "scenario_config = Config ''https://cluster-a.example.com:6443''"

definition scenario_env :: Env where
  "scenario_env =
     \<lparr>RESTConfigFromKubeConfig =
        (\<lambda>kubeconfigBytes. if kubeconfigBytes = scenario_kubeconfig then Inr scenario_config
                            else Inl (ErrorString ''invalid kubeconfig'')),
      BuildConfigFromFlags = (\<lambda>masterUrl path. Inl (ErrorString ''no kubeconfig file'')),
      kubernetes_NewForConfig = (\<lambda>config. None),
      tekton_NewForConfig = (\<lambda>config. None)\<rparr>"

definition scenario_pipelineRun :: PipelineRun where
  "scenario_pipelineRun =
     \<lparr>Name = ''plr-1'', Namespace = ''ns'', UID = ''uid-of-plr-1-on-the-spoke'',
      Labels = Map.empty,
      Annotations = [''pipelinesascode.tekton.dev/git-auth-secret'' \<mapsto> ''git-creds''],
      OwnerReferences = [], IsDone = False\<rparr>"

definition scenario_spoke :: Spoke where
  "scenario_spoke =
     \<lparr>pipelineRuns =
        (\<lambda>key. if key = (''ns'', ''plr-1'') then Inr scenario_pipelineRun
                else Inl (notFound (snd key))),
      secrets = Map.empty,
      createReactor = Map.empty\<rparr>"

definition scenario_world :: World where
  "scenario_world = \<lparr>spokes = (\<lambda>config. scenario_spoke), calls = []\<rparr>"

text \<open>Variations of the scenario.\<close>

definition unsupported_reconciler :: Reconciler where
  "unsupported_reconciler =
     scenario_reconciler\<lparr>kueueClient :=
       (\<lambda>name. Inr (scenario_cluster\<lparr>Spec_KubeConfig :=
          \<lparr>Location = ''some-location'', LocationType = ''UnsupportedType''\<rparr>\<rparr>))\<rparr>"

definition wrong_key_reconciler :: Reconciler where
  "wrong_key_reconciler =
     scenario_reconciler\<lparr>hubKubeClient :=
       (\<lambda>key. Inr (scenario_credential\<lparr>Data := [''wrong-key'' \<mapsto> ''some-data'']\<rparr>))\<rparr>"

definition failing_world :: "error \<Rightarrow> World" where
  "failing_world err =
     \<lparr>spokes = (\<lambda>config. scenario_spoke\<lparr>pipelineRuns := (\<lambda>key. Inl err)\<rparr>), calls = []\<rparr>"

definition done_world :: World where
  "done_world =
     \<lparr>spokes = (\<lambda>config. scenario_spoke\<lparr>pipelineRuns :=
         (\<lambda>key. Inr (scenario_pipelineRun\<lparr>IsDone := True\<rparr>))\<rparr>), calls = []\<rparr>"

definition refusing_world :: World where
  "refusing_world =
     \<lparr>spokes = (\<lambda>config. scenario_spoke\<lparr>createReactor :=
         [(''ns'', ''git-creds'') \<mapsto> forbidden ''git-creds'']\<rparr>), calls = []\<rparr>"

definition inactive_reconciler :: Reconciler where
  "inactive_reconciler =
     scenario_reconciler\<lparr>workloadLister :=
       (\<lambda>key. Inr (scenario_workload\<lparr>Active := Some False\<rparr>))\<rparr>"

definition empty_annotation_world :: World where
  "empty_annotation_world =
     \<lparr>spokes = (\<lambda>config. scenario_spoke\<lparr>pipelineRuns :=
         (\<lambda>key. Inr (scenario_pipelineRun\<lparr>Annotations :=
            [''pipelinesascode.tekton.dev/git-auth-secret'' \<mapsto> []]\<rparr>))\<rparr>), calls = []\<rparr>"

definition job_owner :: OwnerReference where
  "job_owner =
     \<lparr>APIVersion = ''batch/v1'', Kind = ''Job'', OwnerName = ''job-1'',
      OwnerUID = ''uid-of-job-1'', Controller = Some True, BlockOwnerDeletion = Some True\<rparr>"

definition bystander_workload :: Workload where
  "bystander_workload =
     scenario_workload\<lparr>OwnerReferences := [job_owner, scenario_owner\<lparr>Controller := Some False\<rparr>]\<rparr>"

definition bystander_reconciler :: Reconciler where
  "bystander_reconciler =
     scenario_reconciler\<lparr>workloadLister := (\<lambda>key. Inr bystander_workload)\<rparr>"

definition two_owner_workload :: Workload where
  "two_owner_workload =
     scenario_workload\<lparr>OwnerReferences :=
       [scenario_owner\<lparr>OwnerName := ''plr-0'', Controller := None\<rparr>, scenario_owner]\<rparr>"

definition two_owner_reconciler :: Reconciler where
  "two_owner_reconciler =
     scenario_reconciler\<lparr>workloadLister := (\<lambda>key. Inr two_owner_workload)\<rparr>"

section \<open>Auxiliary facts\<close>

lemma spokes_called: "spokes (called c w) = spokes w"
  by (simp add: called_def)

lemma calls_called: "calls (called c w) = calls w @ [c]"
  by (simp add: called_def)

lemma Create_reactor:
  "createReactor (spokes w client) (ns, Name obj) = Some err \<Longrightarrow>
   Create w client ns obj = (Some err, called (SpokeCreateSecret client ns obj) w)"
  by (simp add: Create_def Let_def spokes_called)

lemma Create_exists:
  "createReactor (spokes w client) (ns, Name obj) = None \<Longrightarrow>
   secrets (spokes w client) (ns, Name obj) = Some existing \<Longrightarrow>
   Create w client ns obj =
     (Some (StatusError StatusReasonAlreadyExists
              (''secrets '' @ [CHR 0x22] @ Name obj @ [CHR 0x22] @ '' already exists'')),
      called (SpokeCreateSecret client ns obj) w)"
  by (simp add: Create_def Let_def spokes_called)

lemma Create_fresh:
  "createReactor (spokes w client) (ns, Name obj) = None \<Longrightarrow>
   secrets (spokes w client) (ns, Name obj) = None \<Longrightarrow>
   Create w client ns obj =
     (None, (called (SpokeCreateSecret client ns obj) w)
              \<lparr>spokes := (spokes w)
                 (client := (spokes w client)
                    \<lparr>secrets := (secrets (spokes w client))((ns, Name obj) \<mapsto> obj)\<rparr>)\<rparr>)"
  by (simp add: Create_def Let_def spokes_called)

lemma newSecret_Name: "Name (newSecret secret plr) = Name secret"
  by (simp add: newSecret_def Let_def)

lemma newSecret_Namespace: "Namespace (newSecret secret plr) = Namespace secret"
  by (simp add: newSecret_def Let_def)

lemma newSecret_OwnerReferences:
  "OwnerReferences (newSecret secret plr) =
     map (\<lambda>ref. ref\<lparr>OwnerUID := UID plr\<rparr>) (OwnerReferences secret)"
  by (simp add: newSecret_def Let_def)

lemma createSecret_via_Create:
  assumes "hubKubeClient r (Namespace plr, secretName) = Inr secret"
  shows "createSecretOnSpokeCluster r w secretName cn client plr =
     (case Create (called (HubGetSecret (Namespace plr) secretName) w) client
             (Namespace secret) (newSecret secret plr) of
        (None, w2) \<Rightarrow> (None, w2)
      | (Some err, w2) \<Rightarrow> (if IsAlreadyExists err then None else Some err, w2))"
  using assms
  by (simp add: createSecretOnSpokeCluster_def Let_def newSecret_Namespace split: prod.splits option.splits)

lemma createSecret_fresh:
  assumes "hubKubeClient r (Namespace plr, secretName) = Inr secret"
    and "createReactor (spokes w client) (Namespace secret, Name secret) = None"
    and "secrets (spokes w client) (Namespace secret, Name secret) = None"
  shows "createSecretOnSpokeCluster r w secretName cn client plr =
     (None, (called (SpokeCreateSecret client (Namespace secret) (newSecret secret plr))
               (called (HubGetSecret (Namespace plr) secretName) w))
              \<lparr>spokes := (spokes w)
                 (client := (spokes w client)
                    \<lparr>secrets := (secrets (spokes w client))
                        ((Namespace secret, Name secret) \<mapsto> newSecret secret plr)\<rparr>)\<rparr>)"
  using assms
  by (simp add: createSecret_via_Create Create_fresh newSecret_Name spokes_called)

lemma createSecret_exists:
  assumes "hubKubeClient r (Namespace plr, secretName) = Inr secret"
    and "createReactor (spokes w client) (Namespace secret, Name secret) = None"
    and "secrets (spokes w client) (Namespace secret, Name secret) = Some existing"
  shows "createSecretOnSpokeCluster r w secretName cn client plr =
     (None, called (SpokeCreateSecret client (Namespace secret) (newSecret secret plr))
               (called (HubGetSecret (Namespace plr) secretName) w))"
  using assms
  by (simp add: createSecret_via_Create Create_exists newSecret_Name spokes_called IsAlreadyExists_def)

lemma createSecret_reactor:
  assumes "hubKubeClient r (Namespace plr, secretName) = Inr secret"
    and "createReactor (spokes w client) (Namespace secret, Name secret) = Some err"
  shows "createSecretOnSpokeCluster r w secretName cn client plr =
     (if IsAlreadyExists err then None else Some err,
      called (SpokeCreateSecret client (Namespace secret) (newSecret secret plr))
               (called (HubGetSecret (Namespace plr) secretName) w))"
  using assms
  by (simp add: createSecret_via_Create Create_reactor newSecret_Name spokes_called)

lemma getSpokeClusterConfig_spokes:
  "spokes (snd (getSpokeClusterConfig env r w clusterName)) = spokes w"
  by (simp add: getSpokeClusterConfig_def Let_def spokes_called split: sum.splits option.splits)

lemma getSpokeClusterConfig_calls:
  "\<exists>cs. calls (snd (getSpokeClusterConfig env r w clusterName))
           = calls w @ GetMultiKueueCluster clusterName # cs"
  by (simp add: getSpokeClusterConfig_def Let_def calls_called split: sum.splits option.splits)

lemma Reconcile_gate_active:
  assumes "SplitMetaNamespaceKey key = Inr (namespace, name)"
    and "workloadLister r (namespace, name) = Inr workload"
    and "Active workload = Some False"
  shows "Reconcile env r w key = (None, called (ListerGetWorkload namespace name) w)"
  using assms by (simp add: Reconcile_def Let_def)

lemma Reconcile_gate_cluster:
  assumes "SplitMetaNamespaceKey key = Inr (namespace, name)"
    and "workloadLister r (namespace, name) = Inr workload"
    and "ClusterName workload = None \<or> ClusterName workload = Some []"
  shows "Reconcile env r w key = (None, called (ListerGetWorkload namespace name) w)"
  using assms by (auto simp add: Reconcile_def Let_def)

lemma Reconcile_gate_owner:
  assumes "SplitMetaNamespaceKey key = Inr (namespace, name)"
    and "workloadLister r (namespace, name) = Inr workload"
    and "GetControllerOf workload = None
         \<or> (\<exists>ref. GetControllerOf workload = Some ref \<and> Kind ref \<noteq> ''PipelineRun'')"
  shows "Reconcile env r w key = (None, called (ListerGetWorkload namespace name) w)"
  using assms by (auto simp add: Reconcile_def Let_def split: option.splits)

lemma Reconcile_gates_open:
  assumes "SplitMetaNamespaceKey key = Inr (namespace, name)"
    and "workloadLister r (namespace, name) = Inr workload"
    and "Active workload \<noteq> Some False"
    and "ClusterName workload = Some clusterName"
    and "clusterName \<noteq> []"
    and "GetControllerOf workload = Some owner"
    and "Kind owner = ''PipelineRun''"
  shows "Reconcile env r w key =
    (case getSpokeClusterConfig env r (called (ListerGetWorkload namespace name) w) clusterName of
       (Inl err, w2) \<Rightarrow> (Some err, w2)
     | (Inr spokeClusterConfig, w2) \<Rightarrow>
        (case kubernetes_NewForConfig env spokeClusterConfig of
           Some err \<Rightarrow> (Some err, w2)
         | None \<Rightarrow>
            (case tekton_NewForConfig env spokeClusterConfig of
               Some err \<Rightarrow> (Some err, w2)
             | None \<Rightarrow>
                (case validatePLRAndGetSecretName w2 spokeClusterConfig (OwnerName owner)
                        (Namespace workload) clusterName of
                   ((secretName, pipelineRun, Some err), w3) \<Rightarrow> (Some err, w3)
                 | ((secretName, pipelineRun, None), w3) \<Rightarrow>
                    if secretName = [] then (None, w3)
                    else
                     (case pipelineRun of
                        None \<Rightarrow> (Some RuntimePanic, w3)
                      | Some plr \<Rightarrow>
                         createSecretOnSpokeCluster r w3 secretName clusterName
                           spokeClusterConfig plr)))))"
proof (cases "Active workload")
  case None
  with assms show ?thesis by (simp add: Reconcile_def Let_def)
next
  case (Some active)
  with assms(3) have "active" by simp
  with Some assms show ?thesis by (simp add: Reconcile_def Let_def)
qed

lemma scenario_key: "SplitMetaNamespaceKey ''ns/wl-1'' = Inr (''ns'', ''wl-1'')"
  by (simp add: SplitMetaNamespaceKey_def)

lemma validate_secret:
  assumes "pipelineRuns (spokes w client) (plrNamespace, plrName) = Inr pipelineRun"
    and "\<not> IsDone pipelineRun"
    and "Annotations pipelineRun gitAuthSecret = Some secretName"
  shows "validatePLRAndGetSecretName w client plrName plrNamespace clusterName
           = ((secretName, Some pipelineRun, None),
              called (SpokeGetPipelineRun client plrNamespace plrName) w)"
  using assms by (simp add: validatePLRAndGetSecretName_def Let_def)

lemma validate_no_annotation:
  assumes "pipelineRuns (spokes w client) (plrNamespace, plrName) = Inr pipelineRun"
    and "\<not> IsDone pipelineRun"
    and "Annotations pipelineRun gitAuthSecret = None"
  shows "validatePLRAndGetSecretName w client plrName plrNamespace clusterName
           = (([], None, None),
              called (SpokeGetPipelineRun client plrNamespace plrName) w)"
  using assms by (simp add: validatePLRAndGetSecretName_def Let_def)

lemma getSpokeClusterConfig_Secret:
  assumes "kueueClient r clusterName = Inr mkCluster"
    and "LocationType (Spec_KubeConfig mkCluster) = ''Secret''"
    and "hubKubeClient r (kueueNamespace r, Location (Spec_KubeConfig mkCluster))
           = Inr kubeconfigSecret"
    and "Data kubeconfigSecret ''kubeconfig'' = Some kubeconfigBytes"
  shows "getSpokeClusterConfig env r w clusterName =
           (RESTConfigFromKubeConfig env kubeconfigBytes,
            called (HubGetSecret (kueueNamespace r) (Location (Spec_KubeConfig mkCluster)))
              (called (GetMultiKueueCluster clusterName) w))"
  using assms by (simp add: getSpokeClusterConfig_def Let_def)

lemma GetControllerOf_find:
  "GetControllerOf controllee = find (\<lambda>ref. Controller ref = Some True) (OwnerReferences controllee)"
proof -
  have "(Controller ref \<noteq> None \<and> the (Controller ref)) = (Controller ref = Some True)"
    for ref :: OwnerReference
    by (cases "Controller ref") auto
  then show ?thesis by (simp add: GetControllerOf_def)
qed

lemma enqueueIfOwned_owned:
  "\<exists>owner \<in> set owners. Kind owner = ''PipelineRun'' \<Longrightarrow>
   enqueueIfOwned impl object owners = impl @ [(Namespace object, Name object)]"
  by (induction owners) (auto simp add: EnqueueKey_def)

lemma enqueueIfOwned_not_owned:
  "\<forall>owner \<in> set owners. Kind owner \<noteq> ''PipelineRun'' \<Longrightarrow>
   enqueueIfOwned impl object owners = impl"
  by (induction owners) auto

lemma Reconcile_syncs:
  assumes key: "SplitMetaNamespaceKey key = Inr (namespace, name)"
    and get: "workloadLister r (namespace, name) = Inr workload"
    and active: "Active workload \<noteq> Some False"
    and cluster: "ClusterName workload = Some clusterName" "clusterName \<noteq> []"
    and owner: "GetControllerOf workload = Some owner" "Kind owner = ''PipelineRun''"
    and config: "getSpokeClusterConfig env r (called (ListerGetWorkload namespace name) w)
                   clusterName = (Inr config, w2)"
    and clients: "kubernetes_NewForConfig env config = None"
                 "tekton_NewForConfig env config = None"
    and plr: "pipelineRuns (spokes w config) (Namespace workload, OwnerName owner)
                = Inr pipelineRun"
    and running: "\<not> IsDone pipelineRun"
    and named: "Annotations pipelineRun gitAuthSecret = Some secretName" "secretName \<noteq> []"
    and src: "hubKubeClient r (Namespace pipelineRun, secretName) = Inr source"
    and react: "createReactor (spokes w config) (Namespace source, Name source) = None"
    and fresh: "secrets (spokes w config) (Namespace source, Name source) = None"
  shows "Reconcile env r w key =
     (None,
      (called (SpokeCreateSecret config (Namespace source) (newSecret source pipelineRun))
         (called (HubGetSecret (Namespace pipelineRun) secretName)
            (called (SpokeGetPipelineRun config (Namespace workload) (OwnerName owner)) w2)))
        \<lparr>spokes := (spokes w)
           (config := (spokes w config)
              \<lparr>secrets := (secrets (spokes w config))
                  ((Namespace source, Name source) \<mapsto> newSecret source pipelineRun)\<rparr>)\<rparr>)"
proof -
  let ?w3 = "called (SpokeGetPipelineRun config (Namespace workload) (OwnerName owner)) w2"
  have w2: "spokes w2 = spokes w"
    using getSpokeClusterConfig_spokes [of env r "called (ListerGetWorkload namespace name) w"
        clusterName] config by (simp add: spokes_called)
  have plr2: "pipelineRuns (spokes w2 config) (Namespace workload, OwnerName owner)
                = Inr pipelineRun"
    using plr w2 by simp
  note v = validate_secret [OF plr2 running named(1), of clusterName]
  have react3: "createReactor (spokes ?w3 config) (Namespace source, Name source) = None"
    using react by (simp add: spokes_called w2)
  have fresh3: "secrets (spokes ?w3 config) (Namespace source, Name source) = None"
    using fresh by (simp add: spokes_called w2)
  note c = createSecret_fresh [OF src react3 fresh3, of clusterName]
  have "Reconcile env r w key =
      createSecretOnSpokeCluster r ?w3 secretName clusterName config pipelineRun"
    by (simp add: Reconcile_gates_open [OF key get active cluster owner] config clients v named(2))
  then show ?thesis by (simp add: c spokes_called w2)
qed

lemma scenario_config_resolved:
  assumes "kueueClient r = kueueClient scenario_reconciler"
    and "hubKubeClient r = hubKubeClient scenario_reconciler"
    and "kueueNamespace r = kueueNamespace scenario_reconciler"
  shows "getSpokeClusterConfig scenario_env r w ''cluster-a'' =
     (Inr scenario_config,
      called (HubGetSecret ''kueue-system'' ''kubeconfig-a'')
        (called (GetMultiKueueCluster ''cluster-a'') w))"
proof -
  have reg: "kueueClient r ''cluster-a'' = Inr scenario_cluster"
      "LocationType (Spec_KubeConfig scenario_cluster) = ''Secret''"
    by (simp_all add: assms scenario_reconciler_def scenario_cluster_def)
  have cred: "hubKubeClient r (kueueNamespace r, Location (Spec_KubeConfig scenario_cluster))
              = Inr scenario_credential"
      "Data scenario_credential ''kubeconfig'' = Some scenario_kubeconfig"
    by (simp_all add: assms scenario_reconciler_def scenario_cluster_def scenario_credential_def)
  have names: "kueueNamespace r = ''kueue-system''"
      "Location (Spec_KubeConfig scenario_cluster) = ''kubeconfig-a''"
      "RESTConfigFromKubeConfig scenario_env scenario_kubeconfig = Inr scenario_config"
    by (simp_all add: assms scenario_reconciler_def scenario_cluster_def scenario_env_def)
  from getSpokeClusterConfig_Secret [OF reg cred, of scenario_env w]
  show ?thesis by (simp add: names)
qed

lemma Reconcile_no_annotation:
  assumes key: "SplitMetaNamespaceKey key = Inr (namespace, name)"
    and get: "workloadLister r (namespace, name) = Inr workload"
    and active: "Active workload \<noteq> Some False"
    and cluster: "ClusterName workload = Some clusterName" "clusterName \<noteq> []"
    and owner: "GetControllerOf workload = Some owner" "Kind owner = ''PipelineRun''"
    and config: "getSpokeClusterConfig env r (called (ListerGetWorkload namespace name) w)
                   clusterName = (Inr config, w2)"
    and clients: "kubernetes_NewForConfig env config = None"
                 "tekton_NewForConfig env config = None"
    and plr: "pipelineRuns (spokes w config) (Namespace workload, OwnerName owner)
                = Inr pipelineRun"
    and running: "\<not> IsDone pipelineRun"
    and absent: "Annotations pipelineRun gitAuthSecret = None"
  shows "Reconcile env r w key
           = (None, called (SpokeGetPipelineRun config (Namespace workload) (OwnerName owner)) w2)"
proof -
  have w2: "spokes w2 = spokes w"
    using getSpokeClusterConfig_spokes [of env r "called (ListerGetWorkload namespace name) w"
        clusterName] config by (simp add: spokes_called)
  have plr2: "pipelineRuns (spokes w2 config) (Namespace workload, OwnerName owner)
                = Inr pipelineRun"
    using plr w2 by simp
  note v = validate_no_annotation [OF plr2 running absent, of clusterName]
  show ?thesis
    by (simp add: Reconcile_gates_open [OF key get active cluster owner] config clients v)
qed

lemma scenario_Reconcile:
  assumes hub: "kueueClient r = kueueClient scenario_reconciler"
      "hubKubeClient r = hubKubeClient scenario_reconciler"
      "kueueNamespace r = kueueNamespace scenario_reconciler"
    and get: "workloadLister r (''ns'', ''wl-1'') = Inr workload"
    and wl: "Active workload \<noteq> Some False" "ClusterName workload = Some ''cluster-a''"
      "Namespace workload = ''ns''" "GetControllerOf workload = Some scenario_owner"
  shows "Reconcile scenario_env r scenario_world ''ns/wl-1'' =
     (None,
      \<lparr>spokes = (spokes scenario_world)
         (scenario_config := scenario_spoke
            \<lparr>secrets := [(''ns'', ''git-creds'')
                 \<mapsto> newSecret scenario_source scenario_pipelineRun]\<rparr>),
       calls =
         [ListerGetWorkload ''ns'' ''wl-1'',
          GetMultiKueueCluster ''cluster-a'',
          HubGetSecret ''kueue-system'' ''kubeconfig-a'',
          SpokeGetPipelineRun scenario_config ''ns'' ''plr-1'',
          HubGetSecret ''ns'' ''git-creds'',
          SpokeCreateSecret scenario_config ''ns''
            (newSecret scenario_source scenario_pipelineRun)]\<rparr>)"
proof -
  have owner: "Kind scenario_owner = ''PipelineRun''" "OwnerName scenario_owner = ''plr-1''"
    by (simp_all add: scenario_owner_def)
  note cfg = scenario_config_resolved [OF hub,
      of "called (ListerGetWorkload ''ns'' ''wl-1'') scenario_world"]
  have clients: "kubernetes_NewForConfig scenario_env scenario_config = None"
      "tekton_NewForConfig scenario_env scenario_config = None"
    by (simp_all add: scenario_env_def)
  have plr: "pipelineRuns (spokes scenario_world scenario_config)
               (Namespace workload, OwnerName scenario_owner) = Inr scenario_pipelineRun"
      "\<not> IsDone scenario_pipelineRun"
      "Annotations scenario_pipelineRun gitAuthSecret = Some ''git-creds''"
      "''git-creds'' \<noteq> []"
    by (simp_all add: wl owner scenario_world_def scenario_spoke_def scenario_pipelineRun_def
          gitAuthSecret_def groupName_def)
  have src: "hubKubeClient r (Namespace scenario_pipelineRun, ''git-creds'') = Inr scenario_source"
    by (simp add: hub scenario_reconciler_def scenario_pipelineRun_def)
  have ids: "Namespace scenario_source = ''ns''" "Name scenario_source = ''git-creds''"
      "Namespace scenario_pipelineRun = ''ns''"
    by (simp_all add: scenario_source_def scenario_pipelineRun_def)
  have spoke: "createReactor (spokes scenario_world scenario_config)
                 (Namespace scenario_source, Name scenario_source) = None"
      "secrets (spokes scenario_world scenario_config)
                 (Namespace scenario_source, Name scenario_source) = None"
    by (simp_all add: scenario_world_def scenario_spoke_def)
  have w: "spokes scenario_world scenario_config = scenario_spoke"
      "secrets scenario_spoke = Map.empty" "calls scenario_world = []"
    by (simp_all add: scenario_world_def scenario_spoke_def)
  have ne: "''cluster-a'' \<noteq> []" by simp
  note run = Reconcile_syncs [OF scenario_key get wl(1,2) ne wl(4) owner(1) cfg clients plr src spoke]
  show ?thesis
    by (simp add: run called_def ids owner wl w)
qed

section \<open>Cluster Config Resolver\<close>

text \<open>
  C6.  A cluster registration of location type \<open>Secret\<close> whose credential secret
  exists but has no \<open>kubeconfig\<close> data key makes \<open>getSpokeClusterConfig\<close> fail, and
  the message of the error is exactly
  \<open>kubeconfig secret {namespace}/{name} is missing 'kubeconfig' data key\<close>, with the
  configured Kueue namespace and the registration's location.
\<close>

theorem getSpokeClusterConfig_missing_key:
  assumes "kueueClient r clusterName = Inr mkCluster"
    and "LocationType (Spec_KubeConfig mkCluster) = ''Secret''"
    and "hubKubeClient r (kueueNamespace r, Location (Spec_KubeConfig mkCluster))
           = Inr kubeconfigSecret"
    and "Data kubeconfigSecret ''kubeconfig'' = None"
  shows "\<exists>err. fst (getSpokeClusterConfig env r w clusterName) = Inl err
           \<and> Error err = ''kubeconfig secret '' @ kueueNamespace r @ ''/''
                @ Location (Spec_KubeConfig mkCluster)
                @ '' is missing 'kubeconfig' data key''"
  using assms by (simp add: getSpokeClusterConfig_def Let_def)

theorem getSpokeClusterConfig_missing_key_witness:
  "kueueClient wrong_key_reconciler ''cluster-a'' = Inr scenario_cluster
   \<and> LocationType (Spec_KubeConfig scenario_cluster) = ''Secret''
   \<and> (\<exists>err. fst (getSpokeClusterConfig scenario_env wrong_key_reconciler scenario_world
                    ''cluster-a'') = Inl err
          \<and> Error err = ''kubeconfig secret kueue-system/kubeconfig-a is missing 'kubeconfig' data key'')"
proof -
  have h1: "kueueClient wrong_key_reconciler ''cluster-a'' = Inr scenario_cluster"
    by (simp add: wrong_key_reconciler_def scenario_reconciler_def)
  have h2: "LocationType (Spec_KubeConfig scenario_cluster) = ''Secret''"
    by (simp add: scenario_cluster_def)
  have h3: "hubKubeClient wrong_key_reconciler
              (kueueNamespace wrong_key_reconciler, Location (Spec_KubeConfig scenario_cluster))
            = Inr (scenario_credential\<lparr>Data := [''wrong-key'' \<mapsto> ''some-data'']\<rparr>)"
    by (simp add: wrong_key_reconciler_def)
  have h4: "Data (scenario_credential\<lparr>Data := [''wrong-key'' \<mapsto> ''some-data'']\<rparr>)
              ''kubeconfig'' = None"
    by simp
  have names: "kueueNamespace wrong_key_reconciler = ''kueue-system''"
      "Location (Spec_KubeConfig scenario_cluster) = ''kubeconfig-a''"
    by (simp_all add: wrong_key_reconciler_def scenario_reconciler_def scenario_cluster_def)
  from getSpokeClusterConfig_missing_key [OF h1 h2 h3 h4, of scenario_env scenario_world]
  show ?thesis using h1 h2 by (simp add: names)
qed

text \<open>
  C7.  A cluster registration whose location type is neither \<open>Secret\<close> nor \<open>Path\<close>
  makes \<open>getSpokeClusterConfig\<close> fail, and the message of the error is exactly
  \<open>unsupported kubeconfig location type: \<close> followed by the location type.
\<close>

theorem getSpokeClusterConfig_unsupported:
  assumes "kueueClient r clusterName = Inr mkCluster"
    and "LocationType (Spec_KubeConfig mkCluster) \<noteq> ''Secret''"
    and "LocationType (Spec_KubeConfig mkCluster) \<noteq> ''Path''"
  shows "\<exists>err. fst (getSpokeClusterConfig env r w clusterName) = Inl err
           \<and> Error err = ''unsupported kubeconfig location type: ''
                           @ LocationType (Spec_KubeConfig mkCluster)"
  using assms by (simp add: getSpokeClusterConfig_def Let_def)

theorem getSpokeClusterConfig_unsupported_witness:
  "(\<exists>mkCluster. kueueClient unsupported_reconciler ''cluster-a'' = Inr mkCluster
       \<and> LocationType (Spec_KubeConfig mkCluster) = ''UnsupportedType'')
   \<and> (\<exists>err. fst (getSpokeClusterConfig scenario_env unsupported_reconciler scenario_world
                    ''cluster-a'') = Inl err
          \<and> Error err = ''unsupported kubeconfig location type: UnsupportedType'')"
proof -
  let ?mk = "scenario_cluster\<lparr>Spec_KubeConfig :=
               \<lparr>Location = ''some-location'', LocationType = ''UnsupportedType''\<rparr>\<rparr>"
  have h1: "kueueClient unsupported_reconciler ''cluster-a'' = Inr ?mk"
    by (simp add: unsupported_reconciler_def)
  have h2: "LocationType (Spec_KubeConfig ?mk) \<noteq> ''Secret''" by simp
  have h3: "LocationType (Spec_KubeConfig ?mk) \<noteq> ''Path''" by simp
  from getSpokeClusterConfig_unsupported [OF h1 h2 h3, of scenario_env scenario_world]
  show ?thesis using h1 by simp
qed

section \<open>Pipeline Validator\<close>

text \<open>
  C4.  When the fetch of the PipelineRun from the spoke cluster fails, the validator
  returns the empty secret name and no PipelineRun; the error is nil when the failure
  is a not-found, and is the failure itself otherwise.
\<close>

theorem validatePLRAndGetSecretName_fetch_failure:
  assumes "pipelineRuns (spokes w client) (plrNamespace, plrName) = Inl err"
  shows "fst (validatePLRAndGetSecretName w client plrName plrNamespace clusterName)
           = ([], None, if IsNotFound err then None else Some err)"
  using assms by (simp add: validatePLRAndGetSecretName_def Let_def)

theorem validatePLRAndGetSecretName_fetch_failure_witness:
  "fst (validatePLRAndGetSecretName (failing_world (notFound ''plr-1'')) scenario_config
          ''plr-1'' ''ns'' ''cluster-a'') = ([], None, None)
   \<and> fst (validatePLRAndGetSecretName (failing_world (forbidden ''plr-1'')) scenario_config
          ''plr-1'' ''ns'' ''cluster-a'') = ([], None, Some (forbidden ''plr-1''))"
proof -
  have h: "pipelineRuns (spokes (failing_world err) scenario_config) (''ns'', ''plr-1'') = Inl err"
    for err by (simp add: failing_world_def)
  have "IsNotFound (notFound ''plr-1'')" "\<not> IsNotFound (forbidden ''plr-1'')"
    by (simp_all add: IsNotFound_def notFound_def forbidden_def)
  with validatePLRAndGetSecretName_fetch_failure [OF h, of "notFound ''plr-1''" "''cluster-a''"]
    validatePLRAndGetSecretName_fetch_failure [OF h, of "forbidden ''plr-1''" "''cluster-a''"]
  show ?thesis by simp
qed

text \<open>
  C5.  When the PipelineRun exists on the spoke cluster and is done, the validator
  returns the empty secret name, no PipelineRun and no error, whatever the annotations
  of the PipelineRun are.
\<close>

theorem validatePLRAndGetSecretName_done:
  assumes "pipelineRuns (spokes w client) (plrNamespace, plrName) = Inr pipelineRun"
    and "IsDone pipelineRun"
  shows "fst (validatePLRAndGetSecretName w client plrName plrNamespace clusterName)
           = ([], None, None)"
  using assms by (simp add: validatePLRAndGetSecretName_def Let_def)

theorem validatePLRAndGetSecretName_done_witness:
  "(\<exists>pipelineRun.
       pipelineRuns (spokes done_world scenario_config) (''ns'', ''plr-1'') = Inr pipelineRun
     \<and> IsDone pipelineRun
     \<and> Annotations pipelineRun gitAuthSecret = Some ''git-creds'')
   \<and> fst (validatePLRAndGetSecretName done_world scenario_config ''plr-1'' ''ns'' ''cluster-a'')
       = ([], None, None)"
proof -
  let ?plr = "scenario_pipelineRun\<lparr>IsDone := True\<rparr>"
  have h1: "pipelineRuns (spokes done_world scenario_config) (''ns'', ''plr-1'') = Inr ?plr"
    by (simp add: done_world_def)
  have h2: "IsDone ?plr" by simp
  have h3: "Annotations ?plr gitAuthSecret = Some ''git-creds''"
    by (simp add: scenario_pipelineRun_def gitAuthSecret_def groupName_def)
  from validatePLRAndGetSecretName_done [OF h1 h2, of "''cluster-a''"]
  show ?thesis using h1 h2 h3 by simp
qed

section \<open>Secret Syncer\<close>

text \<open>
  C2.  When the source secret is fetched from the hub, the object that the syncer sends
  to the spoke cluster has the name, namespace, labels, annotations, type and data of
  the source secret, and its owner references are those of the source secret, each with
  its UID replaced by the UID of the spoke-side PipelineRun and with its API version,
  kind, name and controller flags unchanged.
\<close>

theorem createSecretOnSpokeCluster_projection:
  assumes "hubKubeClient r (Namespace pipelineRun, secretName) = Inr secret"
  shows "\<exists>new.
           last (calls (snd (createSecretOnSpokeCluster r w secretName clusterName client
                               pipelineRun)))
             = SpokeCreateSecret client (Namespace secret) new
         \<and> Name new = Name secret \<and> Namespace new = Namespace secret
         \<and> Labels new = Labels secret \<and> Annotations new = Annotations secret
         \<and> Type new = Type secret \<and> Data new = Data secret
         \<and> OwnerReferences new
             = map (\<lambda>ref. ref\<lparr>OwnerUID := UID pipelineRun\<rparr>) (OwnerReferences secret)
         \<and> map OwnerUID (OwnerReferences new)
             = replicate (length (OwnerReferences secret)) (UID pipelineRun)
         \<and> map APIVersion (OwnerReferences new) = map APIVersion (OwnerReferences secret)
         \<and> map Kind (OwnerReferences new) = map Kind (OwnerReferences secret)
         \<and> map OwnerName (OwnerReferences new) = map OwnerName (OwnerReferences secret)
         \<and> map Controller (OwnerReferences new) = map Controller (OwnerReferences secret)
         \<and> map BlockOwnerDeletion (OwnerReferences new)
             = map BlockOwnerDeletion (OwnerReferences secret)"
proof -
  let ?new = "newSecret secret pipelineRun"
  have sent: "last (calls (snd (createSecretOnSpokeCluster r w secretName clusterName client
                               pipelineRun)))
             = SpokeCreateSecret client (Namespace secret) ?new"
    using assms
    by (auto simp add: createSecretOnSpokeCluster_def Create_def called_def Let_def
          newSecret_Namespace split: option.splits)
  have fields: "Name ?new = Name secret" "Namespace ?new = Namespace secret"
      "Labels ?new = Labels secret" "Annotations ?new = Annotations secret"
      "Type ?new = Type secret" "Data ?new = Data secret"
    by (simp_all add: newSecret_def Let_def)
  have uids: "map OwnerUID (OwnerReferences ?new)
             = replicate (length (OwnerReferences secret)) (UID pipelineRun)"
    by (simp add: newSecret_OwnerReferences map_replicate_const comp_def)
  have rest: "map APIVersion (OwnerReferences ?new) = map APIVersion (OwnerReferences secret)"
      "map Kind (OwnerReferences ?new) = map Kind (OwnerReferences secret)"
      "map OwnerName (OwnerReferences ?new) = map OwnerName (OwnerReferences secret)"
      "map Controller (OwnerReferences ?new) = map Controller (OwnerReferences secret)"
      "map BlockOwnerDeletion (OwnerReferences ?new)
         = map BlockOwnerDeletion (OwnerReferences secret)"
    by (simp_all add: newSecret_OwnerReferences comp_def)
  from sent fields uids rest newSecret_OwnerReferences [of secret pipelineRun]
  show ?thesis by blast
qed

theorem createSecretOnSpokeCluster_projection_witness:
  "hubKubeClient scenario_reconciler (Namespace scenario_pipelineRun, ''git-creds'')
     = Inr scenario_source
   \<and> (\<exists>new.
         last (calls (snd (createSecretOnSpokeCluster scenario_reconciler scenario_world
                             ''git-creds'' ''cluster-a'' scenario_config scenario_pipelineRun)))
           = SpokeCreateSecret scenario_config ''ns'' new
       \<and> Name new = ''git-creds'' \<and> Namespace new = ''ns''
       \<and> Data new = [''token'' \<mapsto> ''abc'']
       \<and> OwnerReferences new
           = [scenario_owner\<lparr>OwnerUID := ''uid-of-plr-1-on-the-spoke''\<rparr>])"
proof -
  have h: "hubKubeClient scenario_reconciler (Namespace scenario_pipelineRun, ''git-creds'')
             = Inr scenario_source"
    by (simp add: scenario_reconciler_def scenario_pipelineRun_def)
  have src: "Name scenario_source = ''git-creds''" "Namespace scenario_source = ''ns''"
      "Data scenario_source = [''token'' \<mapsto> ''abc'']"
      "OwnerReferences scenario_source = [scenario_owner]"
      "UID scenario_pipelineRun = ''uid-of-plr-1-on-the-spoke''"
    by (simp_all add: scenario_source_def scenario_pipelineRun_def)
  from createSecretOnSpokeCluster_projection [OF h, of scenario_world "''cluster-a''"
      scenario_config]
  show ?thesis using h by (auto simp add: src)
qed

text \<open>
  C1.  When the source secret is fetched from the hub: if the spoke cluster answers
  the create with no failure of its own, two calls of the syncer in sequence both
  return no error, and after them the spoke cluster holds, under the identity of the
  projected secret, the one object it held before or else the projected secret, and
  nothing else has changed; if the spoke cluster answers the create with a failure,
  the syncer returns no error when the failure is an already-exists and returns the
  failure otherwise, and the spoke cluster is unchanged.
\<close>

theorem createSecretOnSpokeCluster_idempotent:
  assumes hub: "hubKubeClient r (Namespace plr, secretName) = Inr secret"
  shows "(createReactor (spokes w client) (Namespace secret, Name secret) = None \<longrightarrow>
            fst (createSecretOnSpokeCluster r w secretName cn client plr) = None
          \<and> fst (createSecretOnSpokeCluster r
                   (snd (createSecretOnSpokeCluster r w secretName cn client plr))
                   secretName cn client plr) = None
          \<and> spokes (snd (createSecretOnSpokeCluster r
                   (snd (createSecretOnSpokeCluster r w secretName cn client plr))
                   secretName cn client plr))
              = (case secrets (spokes w client) (Namespace secret, Name secret) of
                   None \<Rightarrow> (spokes w)
                     (client := (spokes w client)
                        \<lparr>secrets := (secrets (spokes w client))
                            ((Namespace secret, Name secret) \<mapsto> newSecret secret plr)\<rparr>)
                 | Some existing \<Rightarrow> spokes w))
       \<and> (createReactor (spokes w client) (Namespace secret, Name secret) = Some err \<longrightarrow>
            fst (createSecretOnSpokeCluster r w secretName cn client plr)
              = (if IsAlreadyExists err then None else Some err)
          \<and> spokes (snd (createSecretOnSpokeCluster r w secretName cn client plr)) = spokes w)"
proof (intro conjI impI)
  assume react: "createReactor (spokes w client) (Namespace secret, Name secret) = Some err"
  show "fst (createSecretOnSpokeCluster r w secretName cn client plr)
              = (if IsAlreadyExists err then None else Some err)"
    by (simp add: createSecret_reactor [OF hub react])
  show "spokes (snd (createSecretOnSpokeCluster r w secretName cn client plr)) = spokes w"
    by (simp add: createSecret_reactor [OF hub react] spokes_called)
next
  assume react: "createReactor (spokes w client) (Namespace secret, Name secret) = None"
  let ?key = "(Namespace secret, Name secret)"
  let ?first = "createSecretOnSpokeCluster r w secretName cn client plr"
  let ?second = "createSecretOnSpokeCluster r (snd ?first) secretName cn client plr"
  have first_second: "fst ?first = None \<and> fst ?second = None \<and> spokes (snd ?second)
              = (case secrets (spokes w client) ?key of
                   None \<Rightarrow> (spokes w)
                     (client := (spokes w client)
                        \<lparr>secrets := (secrets (spokes w client))(?key \<mapsto> newSecret secret plr)\<rparr>)
                 | Some existing \<Rightarrow> spokes w)"
  proof (cases "secrets (spokes w client) ?key")
    case None
    note first = createSecret_fresh [OF hub react None, of cn]
    have react': "createReactor (spokes (snd ?first) client) ?key = None"
      by (simp add: first react)
    have ex': "secrets (spokes (snd ?first) client) ?key = Some (newSecret secret plr)"
      by (simp add: first)
    note second = createSecret_exists [OF hub react' ex', of cn]
    show ?thesis
      by (simp add: second spokes_called None) (simp add: first)
  next
    case (Some existing)
    note first = createSecret_exists [OF hub react Some, of cn]
    have react': "createReactor (spokes (snd ?first) client) ?key = None"
      by (simp add: first react spokes_called)
    have ex': "secrets (spokes (snd ?first) client) ?key = Some existing"
      by (simp add: first Some spokes_called)
    note second = createSecret_exists [OF hub react' ex', of cn]
    show ?thesis
      by (simp add: second spokes_called Some) (simp add: first spokes_called)
  qed
  show "fst ?first = None" using first_second by blast
  show "fst ?second = None" using first_second by blast
  show "spokes (snd ?second)
              = (case secrets (spokes w client) ?key of
                   None \<Rightarrow> (spokes w)
                     (client := (spokes w client)
                        \<lparr>secrets := (secrets (spokes w client))(?key \<mapsto> newSecret secret plr)\<rparr>)
                 | Some existing \<Rightarrow> spokes w)" using first_second by blast
qed


theorem createSecretOnSpokeCluster_idempotent_witness:
  "fst (createSecretOnSpokeCluster scenario_reconciler scenario_world ''git-creds''
          ''cluster-a'' scenario_config scenario_pipelineRun) = None
   \<and> fst (createSecretOnSpokeCluster scenario_reconciler
            (snd (createSecretOnSpokeCluster scenario_reconciler scenario_world ''git-creds''
                    ''cluster-a'' scenario_config scenario_pipelineRun))
            ''git-creds'' ''cluster-a'' scenario_config scenario_pipelineRun) = None
   \<and> secrets (spokes (snd (createSecretOnSpokeCluster scenario_reconciler
            (snd (createSecretOnSpokeCluster scenario_reconciler scenario_world ''git-creds''
                    ''cluster-a'' scenario_config scenario_pipelineRun))
            ''git-creds'' ''cluster-a'' scenario_config scenario_pipelineRun)) scenario_config)
       = [(''ns'', ''git-creds'') \<mapsto> newSecret scenario_source scenario_pipelineRun]
   \<and> fst (createSecretOnSpokeCluster scenario_reconciler refusing_world ''git-creds''
          ''cluster-a'' scenario_config scenario_pipelineRun) = Some (forbidden ''git-creds'')
   \<and> secrets (spokes (snd (createSecretOnSpokeCluster scenario_reconciler refusing_world
          ''git-creds'' ''cluster-a'' scenario_config scenario_pipelineRun)) scenario_config)
       = Map.empty"
proof -
  have hub: "hubKubeClient scenario_reconciler (Namespace scenario_pipelineRun, ''git-creds'')
             = Inr scenario_source"
    by (simp add: scenario_reconciler_def scenario_pipelineRun_def)
  have key: "(Namespace scenario_source, Name scenario_source) = (''ns'', ''git-creds'')"
    by (simp add: scenario_source_def)
  have fresh: "createReactor (spokes scenario_world scenario_config) (''ns'', ''git-creds'') = None"
      "secrets (spokes scenario_world scenario_config) = Map.empty"
    by (simp_all add: scenario_world_def scenario_spoke_def)
  have refusing: "createReactor (spokes refusing_world scenario_config) (''ns'', ''git-creds'')
             = Some (forbidden ''git-creds'')"
      "secrets (spokes refusing_world scenario_config) = Map.empty"
    by (simp_all add: refusing_world_def scenario_spoke_def)
  have other: "\<not> IsAlreadyExists (forbidden ''git-creds'')"
    by (simp add: IsAlreadyExists_def forbidden_def)
  from createSecretOnSpokeCluster_idempotent [OF hub, of scenario_world scenario_config
      "''cluster-a''" "forbidden ''git-creds''"]
    createSecretOnSpokeCluster_idempotent [OF hub, of refusing_world scenario_config
      "''cluster-a''" "forbidden ''git-creds''"]
  show ?thesis by (simp add: key fresh refusing other)
qed

section \<open>Reconciliation gates\<close>

text \<open>
  C3.  For a Workload that the lister returns: if \<open>Spec.Active\<close> is false, or
  \<open>Status.ClusterName\<close> is nil or empty, or there is no controlling owner reference, or
  its kind is not \<open>PipelineRun\<close>, then \<open>Reconcile\<close> returns nil and the only call it has
  made is the read from the lister: no cluster configuration is resolved, no
  PipelineRun is fetched, no secret is created.  Conversely, whenever \<open>Reconcile\<close> does
  anything beyond that read, \<open>Spec.Active\<close> is not false, the cluster name is not
  empty and the controlling owner reference has kind \<open>PipelineRun\<close>.
\<close>

theorem Reconcile_gates:
  assumes key: "SplitMetaNamespaceKey key = Inr (namespace, name)"
    and get: "workloadLister r (namespace, name) = Inr workload"
  shows "(Active workload = Some False
          \<or> ClusterName workload = None \<or> ClusterName workload = Some []
          \<or> GetControllerOf workload = None
          \<or> (\<exists>ref. GetControllerOf workload = Some ref \<and> Kind ref \<noteq> ''PipelineRun'')
          \<longrightarrow> Reconcile env r w key = (None, called (ListerGetWorkload namespace name) w))
       \<and> (snd (Reconcile env r w key) \<noteq> called (ListerGetWorkload namespace name) w
          \<longrightarrow> Active workload \<noteq> Some False
            \<and> (\<exists>clusterName. ClusterName workload = Some clusterName \<and> clusterName \<noteq> [])
            \<and> (\<exists>ref. GetControllerOf workload = Some ref \<and> Kind ref = ''PipelineRun''))"
proof -
  have closed: "Reconcile env r w key = (None, called (ListerGetWorkload namespace name) w)"
    if "Active workload = Some False
          \<or> ClusterName workload = None \<or> ClusterName workload = Some []
          \<or> GetControllerOf workload = None
          \<or> (\<exists>ref. GetControllerOf workload = Some ref \<and> Kind ref \<noteq> ''PipelineRun'')"
    using that Reconcile_gate_active [OF key get] Reconcile_gate_cluster [OF key get]
      Reconcile_gate_owner [OF key get] by blast
  have "Active workload \<noteq> Some False
            \<and> (\<exists>clusterName. ClusterName workload = Some clusterName \<and> clusterName \<noteq> [])
            \<and> (\<exists>ref. GetControllerOf workload = Some ref \<and> Kind ref = ''PipelineRun'')"
    if work: "snd (Reconcile env r w key) \<noteq> called (ListerGetWorkload namespace name) w"
  proof -
    from work have "Reconcile env r w key \<noteq> (None, called (ListerGetWorkload namespace name) w)"
      by (metis snd_conv)
    with closed have open_gates: "\<not> (Active workload = Some False
          \<or> ClusterName workload = None \<or> ClusterName workload = Some []
          \<or> GetControllerOf workload = None
          \<or> (\<exists>ref. GetControllerOf workload = Some ref \<and> Kind ref \<noteq> ''PipelineRun''))"
      by blast
    then obtain clusterName where "ClusterName workload = Some clusterName" "clusterName \<noteq> []"
      by (cases "ClusterName workload") auto
    moreover from open_gates obtain ref where "GetControllerOf workload = Some ref"
        "Kind ref = ''PipelineRun''"
      by (cases "GetControllerOf workload") auto
    ultimately show ?thesis using open_gates by blast
  qed
  with closed show ?thesis by blast
qed

theorem Reconcile_gates_witness:
  "Reconcile scenario_env inactive_reconciler scenario_world ''ns/wl-1''
     = (None, called (ListerGetWorkload ''ns'' ''wl-1'') scenario_world)
   \<and> snd (Reconcile scenario_env scenario_reconciler scenario_world ''ns/wl-1'')
       \<noteq> called (ListerGetWorkload ''ns'' ''wl-1'') scenario_world
   \<and> Active scenario_workload \<noteq> Some False
   \<and> (\<exists>clusterName. ClusterName scenario_workload = Some clusterName \<and> clusterName \<noteq> [])
   \<and> (\<exists>ref. GetControllerOf scenario_workload = Some ref \<and> Kind ref = ''PipelineRun'')"
proof -
  have get1: "workloadLister inactive_reconciler (''ns'', ''wl-1'')
                = Inr (scenario_workload\<lparr>Active := Some False\<rparr>)"
    by (simp add: inactive_reconciler_def)
  have closed: "Active (scenario_workload\<lparr>Active := Some False\<rparr>) = Some False" by simp
  have get2: "workloadLister scenario_reconciler (''ns'', ''wl-1'') = Inr scenario_workload"
    by (simp add: scenario_reconciler_def)
  have wl: "Active scenario_workload \<noteq> Some False"
      "ClusterName scenario_workload = Some ''cluster-a''"
      "Namespace scenario_workload = ''ns''"
      "GetControllerOf scenario_workload = Some scenario_owner"
    by (simp_all add: scenario_workload_def GetControllerOf_find scenario_owner_def)
  have start: "calls scenario_world = []" by (simp add: scenario_world_def)
  have "calls (snd (Reconcile scenario_env scenario_reconciler scenario_world ''ns/wl-1''))
          \<noteq> calls (called (ListerGetWorkload ''ns'' ''wl-1'') scenario_world)"
    by (simp add: scenario_Reconcile [OF refl refl refl get2 wl] calls_called start)
  then have work: "snd (Reconcile scenario_env scenario_reconciler scenario_world ''ns/wl-1'')
       \<noteq> called (ListerGetWorkload ''ns'' ''wl-1'') scenario_world"
    by metis
  from Reconcile_gates [OF scenario_key get1, of scenario_env scenario_world] closed
    Reconcile_gates [OF scenario_key get2, of scenario_env scenario_world] work
  show ?thesis by blast
qed

text \<open>
  C10.  The owner gate of \<open>Reconcile\<close> reads only the controlling owner reference.  A
  Workload that has an owner reference of kind \<open>PipelineRun\<close>, and whose controlling
  owner reference is absent or of another kind, is enqueued by \<open>checkOwnerAndEnqueue\<close>,
  and \<open>Reconcile\<close> returns nil for it after the read from the lister alone.
\<close>

theorem Reconcile_owner_gate_controller_only:
  assumes key: "SplitMetaNamespaceKey key = Inr (namespace, name)"
    and get: "workloadLister r (namespace, name) = Inr workload"
    and has: "\<exists>owner \<in> set (OwnerReferences workload). Kind owner = ''PipelineRun''"
    and ctrl: "GetControllerOf workload = None
               \<or> (\<exists>ref. GetControllerOf workload = Some ref \<and> Kind ref \<noteq> ''PipelineRun'')"
  shows "Reconcile env r w key = (None, called (ListerGetWorkload namespace name) w)
       \<and> checkOwnerAndEnqueue impl (Accessor workload)
           = impl @ [(Namespace workload, Name workload)]"
  using Reconcile_gate_owner [OF key get ctrl] enqueueIfOwned_owned [OF has]
  by (simp add: checkOwnerAndEnqueue_def)

theorem Reconcile_owner_gate_controller_only_witness:
  "workloadLister bystander_reconciler (''ns'', ''wl-1'') = Inr bystander_workload
   \<and> map Kind (OwnerReferences bystander_workload) = [''Job'', ''PipelineRun'']
   \<and> GetControllerOf bystander_workload = Some job_owner
   \<and> Reconcile scenario_env bystander_reconciler scenario_world ''ns/wl-1''
       = (None, called (ListerGetWorkload ''ns'' ''wl-1'') scenario_world)
   \<and> checkOwnerAndEnqueue [] (Accessor bystander_workload) = [(''ns'', ''wl-1'')]"
proof -
  have get: "workloadLister bystander_reconciler (''ns'', ''wl-1'') = Inr bystander_workload"
    by (simp add: bystander_reconciler_def)
  have refs: "OwnerReferences bystander_workload
                = [job_owner, scenario_owner\<lparr>Controller := Some False\<rparr>]"
    by (simp add: bystander_workload_def)
  have kinds: "Kind job_owner = ''Job''" "Kind scenario_owner = ''PipelineRun''"
    by (simp_all add: job_owner_def scenario_owner_def)
  have has: "\<exists>owner \<in> set (OwnerReferences bystander_workload). Kind owner = ''PipelineRun''"
    by (simp add: refs kinds)
  have c: "GetControllerOf bystander_workload = Some job_owner"
    by (simp add: GetControllerOf_find refs job_owner_def)
  have ctrl: "GetControllerOf bystander_workload = None
               \<or> (\<exists>ref. GetControllerOf bystander_workload = Some ref \<and> Kind ref \<noteq> ''PipelineRun'')"
    by (simp add: c kinds)
  have names: "Namespace bystander_workload = ''ns''" "Name bystander_workload = ''wl-1''"
    by (simp_all add: bystander_workload_def scenario_workload_def)
  from Reconcile_owner_gate_controller_only [OF scenario_key get has ctrl,
      of scenario_env scenario_world "[]"]
  show ?thesis using get c by (simp add: refs kinds names)
qed

text \<open>
  The hypothesis on the controlling reference is needed.  A Workload can have an owner
  reference of kind \<open>PipelineRun\<close> that is not its controlling reference and still be
  controlled by a PipelineRun: the Workload below has two owner references of kind
  \<open>PipelineRun\<close>, the first is not the controlling one, the second is, and
  \<open>Reconcile\<close> resolves the cluster and creates the secret.
\<close>

theorem Reconcile_owner_gate_counterexample:
  "workloadLister two_owner_reconciler (''ns'', ''wl-1'') = Inr two_owner_workload
   \<and> Kind (hd (OwnerReferences two_owner_workload)) = ''PipelineRun''
   \<and> GetControllerOf two_owner_workload \<noteq> Some (hd (OwnerReferences two_owner_workload))
   \<and> Reconcile scenario_env two_owner_reconciler scenario_world ''ns/wl-1''
       \<noteq> (None, called (ListerGetWorkload ''ns'' ''wl-1'') scenario_world)
   \<and> GetMultiKueueCluster ''cluster-a''
       \<in> set (calls (snd (Reconcile scenario_env two_owner_reconciler scenario_world ''ns/wl-1'')))
   \<and> secrets (spokes (snd (Reconcile scenario_env two_owner_reconciler scenario_world
                             ''ns/wl-1'')) scenario_config) (''ns'', ''git-creds'')
       = Some (newSecret scenario_source scenario_pipelineRun)"
proof -
  let ?r = two_owner_reconciler
  let ?wl = two_owner_workload
  have get: "workloadLister ?r (''ns'', ''wl-1'') = Inr ?wl"
    by (simp add: two_owner_reconciler_def)
  have refs: "OwnerReferences ?wl
      = [scenario_owner\<lparr>OwnerName := ''plr-0'', Controller := None\<rparr>, scenario_owner]"
    by (simp add: two_owner_workload_def)
  have c: "GetControllerOf ?wl = Some scenario_owner"
    by (simp add: GetControllerOf_find refs scenario_owner_def)
  have differ: "scenario_owner \<noteq> scenario_owner\<lparr>OwnerName := ''plr-0'', Controller := None\<rparr>"
    by (simp add: scenario_owner_def)
  have wl: "Active ?wl \<noteq> Some False" "ClusterName ?wl = Some ''cluster-a''"
      "Namespace ?wl = ''ns''"
    by (simp_all add: two_owner_workload_def scenario_workload_def)
  have hub: "kueueClient ?r = kueueClient scenario_reconciler"
      "hubKubeClient ?r = hubKubeClient scenario_reconciler"
      "kueueNamespace ?r = kueueNamespace scenario_reconciler"
    by (simp_all add: two_owner_reconciler_def)
  note run = scenario_Reconcile [OF hub get wl c]
  have start: "calls scenario_world = []" by (simp add: scenario_world_def)
  have "Kind (hd (OwnerReferences ?wl)) = ''PipelineRun''"
    by (simp add: refs scenario_owner_def)
  moreover have "GetControllerOf ?wl \<noteq> Some (hd (OwnerReferences ?wl))"
    using differ by (simp add: c refs)
  moreover have "Reconcile scenario_env ?r scenario_world ''ns/wl-1''
       \<noteq> (None, called (ListerGetWorkload ''ns'' ''wl-1'') scenario_world)"
  proof -
    have "calls (snd (Reconcile scenario_env ?r scenario_world ''ns/wl-1''))
            \<noteq> calls (called (ListerGetWorkload ''ns'' ''wl-1'') scenario_world)"
      by (simp add: run calls_called start)
    then show ?thesis by (metis snd_conv)
  qed
  moreover have "GetMultiKueueCluster ''cluster-a''
       \<in> set (calls (snd (Reconcile scenario_env ?r scenario_world ''ns/wl-1'')))"
    by (simp add: run)
  moreover have "secrets (spokes (snd (Reconcile scenario_env ?r scenario_world
                             ''ns/wl-1'')) scenario_config) (''ns'', ''git-creds'')
       = Some (newSecret scenario_source scenario_pipelineRun)"
    by (simp add: run)
  ultimately show ?thesis using get by blast
qed

section \<open>Reconciliation with an empty secret name\<close>

text \<open>
  C9.  For a Workload that passes the gates and whose cluster configuration is
  resolved: when the PipelineRun exists, is not done and carries the annotation
  \<open>pipelinesascode.tekton.dev/git-auth-secret\<close> with the empty string as value, the
  validator returns the empty secret name with the PipelineRun and no error, and
  \<open>Reconcile\<close> returns nil with the fetch of the PipelineRun as its last call: no
  secret is read from the hub for the syncer, none is created, and the spoke clusters
  are unchanged.  \<open>Reconcile_no_annotation\<close> gives the same result of \<open>Reconcile\<close>
  when the annotation is absent.
\<close>

theorem Reconcile_empty_annotation:
  assumes key: "SplitMetaNamespaceKey key = Inr (namespace, name)"
    and get: "workloadLister r (namespace, name) = Inr workload"
    and active: "Active workload \<noteq> Some False"
    and cluster: "ClusterName workload = Some clusterName" "clusterName \<noteq> []"
    and owner: "GetControllerOf workload = Some owner" "Kind owner = ''PipelineRun''"
    and config: "getSpokeClusterConfig env r (called (ListerGetWorkload namespace name) w)
                   clusterName = (Inr config, w2)"
    and clients: "kubernetes_NewForConfig env config = None"
                 "tekton_NewForConfig env config = None"
    and plr: "pipelineRuns (spokes w config) (Namespace workload, OwnerName owner)
                = Inr pipelineRun"
    and running: "\<not> IsDone pipelineRun"
    and empty: "Annotations pipelineRun gitAuthSecret = Some []"
  shows "fst (validatePLRAndGetSecretName w2 config (OwnerName owner) (Namespace workload)
                clusterName) = ([], Some pipelineRun, None)
       \<and> Reconcile env r w key
           = (None, called (SpokeGetPipelineRun config (Namespace workload) (OwnerName owner)) w2)
       \<and> spokes (snd (Reconcile env r w key)) = spokes w"
proof -
  have w2: "spokes w2 = spokes w"
    using getSpokeClusterConfig_spokes [of env r "called (ListerGetWorkload namespace name) w"
        clusterName] config by (simp add: spokes_called)
  have plr2: "pipelineRuns (spokes w2 config) (Namespace workload, OwnerName owner)
                = Inr pipelineRun"
    using plr w2 by simp
  note v = validate_secret [OF plr2 running empty, of clusterName]
  have r: "Reconcile env r w key
           = (None, called (SpokeGetPipelineRun config (Namespace workload) (OwnerName owner)) w2)"
    by (simp add: Reconcile_gates_open [OF key get active cluster owner] config clients v)
  show ?thesis by (simp add: v r spokes_called w2)
qed

theorem Reconcile_empty_annotation_witness:
  "(\<exists>pipelineRun.
       pipelineRuns (spokes empty_annotation_world scenario_config) (''ns'', ''plr-1'')
         = Inr pipelineRun
     \<and> \<not> IsDone pipelineRun \<and> Annotations pipelineRun gitAuthSecret = Some []
     \<and> fst (validatePLRAndGetSecretName
               (called (HubGetSecret ''kueue-system'' ''kubeconfig-a'')
                  (called (GetMultiKueueCluster ''cluster-a'')
                     (called (ListerGetWorkload ''ns'' ''wl-1'') empty_annotation_world)))
               scenario_config ''plr-1'' ''ns'' ''cluster-a'') = ([], Some pipelineRun, None))
   \<and> fst (Reconcile scenario_env scenario_reconciler empty_annotation_world ''ns/wl-1'') = None
   \<and> calls (snd (Reconcile scenario_env scenario_reconciler empty_annotation_world ''ns/wl-1''))
       = [ListerGetWorkload ''ns'' ''wl-1'', GetMultiKueueCluster ''cluster-a'',
          HubGetSecret ''kueue-system'' ''kubeconfig-a'',
          SpokeGetPipelineRun scenario_config ''ns'' ''plr-1'']
   \<and> spokes (snd (Reconcile scenario_env scenario_reconciler empty_annotation_world ''ns/wl-1''))
       = spokes empty_annotation_world"
proof -
  let ?plr = "scenario_pipelineRun\<lparr>Annotations :=
                [''pipelinesascode.tekton.dev/git-auth-secret'' \<mapsto> []]\<rparr>"
  have get: "workloadLister scenario_reconciler (''ns'', ''wl-1'') = Inr scenario_workload"
    by (simp add: scenario_reconciler_def)
  have wl: "Active scenario_workload \<noteq> Some False"
      "ClusterName scenario_workload = Some ''cluster-a''" "''cluster-a'' \<noteq> []"
    by (simp_all add: scenario_workload_def)
  have owner: "GetControllerOf scenario_workload = Some scenario_owner"
      "Kind scenario_owner = ''PipelineRun''"
    by (simp_all add: scenario_workload_def GetControllerOf_find scenario_owner_def)
  have names: "Namespace scenario_workload = ''ns''" "OwnerName scenario_owner = ''plr-1''"
    by (simp_all add: scenario_workload_def scenario_owner_def)
  note cfg = scenario_config_resolved [OF refl refl refl,
      of "called (ListerGetWorkload ''ns'' ''wl-1'') empty_annotation_world"]
  have clients: "kubernetes_NewForConfig scenario_env scenario_config = None"
      "tekton_NewForConfig scenario_env scenario_config = None"
    by (simp_all add: scenario_env_def)
  have plr: "pipelineRuns (spokes empty_annotation_world scenario_config)
               (Namespace scenario_workload, OwnerName scenario_owner) = Inr ?plr"
    by (simp add: empty_annotation_world_def)
  have running: "\<not> IsDone ?plr" by (simp add: scenario_pipelineRun_def)
  have empty: "Annotations ?plr gitAuthSecret = Some []"
    by (simp add: gitAuthSecret_def groupName_def)
  have start: "calls empty_annotation_world = []" by (simp add: empty_annotation_world_def)
  from Reconcile_empty_annotation [OF scenario_key get wl owner cfg clients plr running empty]
  show ?thesis using plr running empty by (simp add: names calls_called spokes_called start)
qed

section \<open>End to end\<close>

text \<open>
  C8.  Workload \<open>ns/wl-1\<close> is active and scheduled to \<open>cluster-a\<close>, its controlling
  owner is PipelineRun \<open>plr-1\<close>; \<open>cluster-a\<close> is registered with a credential secret
  that holds a kubeconfig from which clients are built; PipelineRun \<open>ns/plr-1\<close> on the
  spoke is not done and names the secret \<open>git-creds\<close>; the hub secret \<open>ns/git-creds\<close>
  has the data \<open>token = abc\<close>; the spoke holds no secret \<open>ns/git-creds\<close> and does not
  refuse the create.  Then \<open>Reconcile\<close> returns nil, and afterwards the spoke holds
  the secret \<open>ns/git-creds\<close> with the data \<open>token = abc\<close>, whose owner references
  are those of the hub secret, each with the UID of \<open>plr-1\<close> on the spoke.
\<close>

theorem Reconcile_end_to_end:
  assumes get: "workloadLister r (''ns'', ''wl-1'') = Inr workload"
    and wl: "Namespace workload = ''ns''" "Active workload = Some True"
            "ClusterName workload = Some ''cluster-a''"
    and owner: "GetControllerOf workload = Some owner" "Kind owner = ''PipelineRun''"
               "OwnerName owner = ''plr-1''"
    and reg: "kueueClient r ''cluster-a'' = Inr mkCluster"
             "LocationType (Spec_KubeConfig mkCluster) = ''Secret''"
    and cred: "hubKubeClient r (kueueNamespace r, Location (Spec_KubeConfig mkCluster))
                 = Inr credential"
              "Data credential ''kubeconfig'' = Some kubeconfigBytes"
              "RESTConfigFromKubeConfig env kubeconfigBytes = Inr config"
    and clients: "kubernetes_NewForConfig env config = None"
                 "tekton_NewForConfig env config = None"
    and plr: "pipelineRuns (spokes w config) (''ns'', ''plr-1'') = Inr pipelineRun"
             "Namespace pipelineRun = ''ns''" "\<not> IsDone pipelineRun"
             "Annotations pipelineRun gitAuthSecret = Some ''git-creds''"
    and src: "hubKubeClient r (''ns'', ''git-creds'') = Inr source"
             "Name source = ''git-creds''" "Namespace source = ''ns''"
             "Data source = [''token'' \<mapsto> ''abc'']"
    and spoke: "createReactor (spokes w config) (''ns'', ''git-creds'') = None"
               "secrets (spokes w config) (''ns'', ''git-creds'') = None"
  shows "fst (Reconcile env r w ''ns/wl-1'') = None
       \<and> (\<exists>created.
             secrets (spokes (snd (Reconcile env r w ''ns/wl-1'')) config) (''ns'', ''git-creds'')
               = Some created
           \<and> Name created = ''git-creds'' \<and> Namespace created = ''ns''
           \<and> Data created = [''token'' \<mapsto> ''abc'']
           \<and> OwnerReferences created
               = map (\<lambda>ref. ref\<lparr>OwnerUID := UID pipelineRun\<rparr>) (OwnerReferences source)
           \<and> map OwnerUID (OwnerReferences created)
               = replicate (length (OwnerReferences source)) (UID pipelineRun))"
proof -
  let ?w1 = "called (ListerGetWorkload ''ns'' ''wl-1'') w"
  let ?w2 = "called (HubGetSecret (kueueNamespace r) (Location (Spec_KubeConfig mkCluster)))
              (called (GetMultiKueueCluster ''cluster-a'') ?w1)"
  let ?new = "newSecret source pipelineRun"
  have active: "Active workload \<noteq> Some False" using wl by simp
  have ne: "''cluster-a'' \<noteq> []" "''git-creds'' \<noteq> []" by simp_all
  have cfg: "getSpokeClusterConfig env r ?w1 ''cluster-a'' = (Inr config, ?w2)"
    using getSpokeClusterConfig_Secret [OF reg cred(1,2), of env ?w1] cred(3) by simp
  have plr': "pipelineRuns (spokes w config) (Namespace workload, OwnerName owner)
                = Inr pipelineRun"
    using plr(1) wl(1) owner(3) by simp
  have hub: "hubKubeClient r (Namespace pipelineRun, ''git-creds'') = Inr source"
    using src(1) plr(2) by simp
  have react: "createReactor (spokes w config) (Namespace source, Name source) = None"
    using spoke(1) src(2,3) by simp
  have fresh: "secrets (spokes w config) (Namespace source, Name source) = None"
    using spoke(2) src(2,3) by simp
  note run = Reconcile_syncs [OF scenario_key get active wl(3) ne(1) owner(1,2) cfg clients
      plr' plr(3,4) ne(2) hub react fresh]
  have stored: "secrets (spokes (snd (Reconcile env r w ''ns/wl-1'')) config)
                  (''ns'', ''git-creds'') = Some ?new"
    by (simp add: run src(2,3))
  have fields: "Name ?new = ''git-creds''" "Namespace ?new = ''ns''"
      "Data ?new = [''token'' \<mapsto> ''abc'']"
    using src by (simp_all add: newSecret_def Let_def)
  have uids: "map OwnerUID (OwnerReferences ?new)
             = replicate (length (OwnerReferences source)) (UID pipelineRun)"
    by (simp add: newSecret_OwnerReferences map_replicate_const comp_def)
  have "fst (Reconcile env r w ''ns/wl-1'') = None" by (simp add: run)
  with stored fields uids newSecret_OwnerReferences [of source pipelineRun]
  show ?thesis by blast
qed

theorem Reconcile_end_to_end_witness:
  "workloadLister scenario_reconciler (''ns'', ''wl-1'') = Inr scenario_workload
   \<and> pipelineRuns (spokes scenario_world scenario_config) (''ns'', ''plr-1'')
       = Inr scenario_pipelineRun
   \<and> hubKubeClient scenario_reconciler (''ns'', ''git-creds'') = Inr scenario_source
   \<and> secrets (spokes scenario_world scenario_config) (''ns'', ''git-creds'') = None
   \<and> fst (Reconcile scenario_env scenario_reconciler scenario_world ''ns/wl-1'') = None
   \<and> (\<exists>created.
         secrets (spokes (snd (Reconcile scenario_env scenario_reconciler scenario_world
                                 ''ns/wl-1'')) scenario_config) (''ns'', ''git-creds'')
           = Some created
       \<and> Name created = ''git-creds'' \<and> Namespace created = ''ns''
       \<and> Data created = [''token'' \<mapsto> ''abc'']
       \<and> map OwnerUID (OwnerReferences created) = [''uid-of-plr-1-on-the-spoke''])"
proof -
  have get: "workloadLister scenario_reconciler (''ns'', ''wl-1'') = Inr scenario_workload"
    by (simp add: scenario_reconciler_def)
  have wl: "Namespace scenario_workload = ''ns''" "Active scenario_workload = Some True"
      "ClusterName scenario_workload = Some ''cluster-a''"
    by (simp_all add: scenario_workload_def)
  have owner: "GetControllerOf scenario_workload = Some scenario_owner"
      "Kind scenario_owner = ''PipelineRun''" "OwnerName scenario_owner = ''plr-1''"
    by (simp_all add: scenario_workload_def GetControllerOf_find scenario_owner_def)
  have reg: "kueueClient scenario_reconciler ''cluster-a'' = Inr scenario_cluster"
      "LocationType (Spec_KubeConfig scenario_cluster) = ''Secret''"
    by (simp_all add: scenario_reconciler_def scenario_cluster_def)
  have cred: "hubKubeClient scenario_reconciler
                (kueueNamespace scenario_reconciler, Location (Spec_KubeConfig scenario_cluster))
              = Inr scenario_credential"
      "Data scenario_credential ''kubeconfig'' = Some scenario_kubeconfig"
      "RESTConfigFromKubeConfig scenario_env scenario_kubeconfig = Inr scenario_config"
    by (simp_all add: scenario_reconciler_def scenario_cluster_def scenario_credential_def
          scenario_env_def)
  have clients: "kubernetes_NewForConfig scenario_env scenario_config = None"
      "tekton_NewForConfig scenario_env scenario_config = None"
    by (simp_all add: scenario_env_def)
  have plr: "pipelineRuns (spokes scenario_world scenario_config) (''ns'', ''plr-1'')
               = Inr scenario_pipelineRun"
      "Namespace scenario_pipelineRun = ''ns''" "\<not> IsDone scenario_pipelineRun"
      "Annotations scenario_pipelineRun gitAuthSecret = Some ''git-creds''"
    by (simp_all add: scenario_world_def scenario_spoke_def scenario_pipelineRun_def
          gitAuthSecret_def groupName_def)
  have src: "hubKubeClient scenario_reconciler (''ns'', ''git-creds'') = Inr scenario_source"
      "Name scenario_source = ''git-creds''" "Namespace scenario_source = ''ns''"
      "Data scenario_source = [''token'' \<mapsto> ''abc'']"
    by (simp_all add: scenario_reconciler_def scenario_source_def)
  have spoke: "createReactor (spokes scenario_world scenario_config) (''ns'', ''git-creds'') = None"
      "secrets (spokes scenario_world scenario_config) (''ns'', ''git-creds'') = None"
    by (simp_all add: scenario_world_def scenario_spoke_def)
  have more: "length (OwnerReferences scenario_source) = 1"
      "UID scenario_pipelineRun = ''uid-of-plr-1-on-the-spoke''"
    by (simp_all add: scenario_source_def scenario_pipelineRun_def)
  from Reconcile_end_to_end [OF get wl owner reg cred clients plr src spoke]
  show ?thesis using get plr(1) src(1) spoke(2) by (auto simp add: more)
qed

end
